theory Spec2Isabelle
  imports Main "HOL-Library.AList"
begin

section \<open>Data model\<close>

text \<open>
  The service \<^verbatim>\<open>GoogleFileManagerService\<close> keeps a cache of JSON documents that live in
  a remote drive.  Its state is a subject of life-cycle events (\<^verbatim>\<open>_fileEvent$\<close>), the
  snapshot folded from these events (\<^verbatim>\<open>_cachedFiles$\<close>), and two memo fields.

  Document content is opaque JSON.
\<close>

datatype json =
    JNull
  | JBool bool
  | JNumber int
  | JString string
  | JArray "json list"
  | JObject "(string \<times> json) list"

text \<open>
  Modelled from the spec: the class \<^verbatim>\<open>JsonFile\<close> (\<^verbatim>\<open>model_data/json-file\<close>) is
  imported by the service and is not among the sources.  A document has an id (assigned
  by the remote store, absent until the document is created there), a name, the flag
  whether it may be edited, the time of its last modification and its content.  A field
  holds \<open>None\<close> where it is absent; JavaScript \<^verbatim>\<open>null\<close> and \<^verbatim>\<open>undefined\<close> are both
  \<open>None\<close>.
\<close>

record JsonFile =
  file_id :: "string option"
  name :: "string option"
  canEdit :: "bool option"
  modifiedTime :: "string option"
  content :: "json option"

text \<open>
  Modelled from the spec: the constructor of \<^verbatim>\<open>JsonFile\<close>, which the service calls as
  \<^verbatim>\<open>new JsonFile(id, name, canEdit, modifiedTime)\<close>, \<^verbatim>\<open>new JsonFile(id)\<close> and
  \<^verbatim>\<open>new JsonFile()\<close>.  What is not supplied is absent; the content is assigned
  afterwards.
\<close>

definition new_JsonFile ::
  "string option \<Rightarrow> string option \<Rightarrow> bool option \<Rightarrow> string option \<Rightarrow> JsonFile" where
  "new_JsonFile i n e t =
     \<lparr>file_id = i, name = n, canEdit = e, modifiedTime = t, content = None\<rparr>"

text \<open>
  \<^verbatim>\<open>FileAlertAction\<close> is a union of string literals, which exists only for the type
  checker: at run time the action is a string, and the reducer has a branch for a string
  outside the union.  The file of an event may be \<^verbatim>\<open>null\<close>.
\<close>

record FileAlertEvent =
  action :: string
  event_file :: "JsonFile option"

text \<open>
  Failures: \<open>Error msg\<close> is \<^verbatim>\<open>throw Error(msg)\<close> in the service, \<open>TypeError\<close> is
  the run-time error of reading a property of \<^verbatim>\<open>null\<close> or \<^verbatim>\<open>undefined\<close> (or of spreading
  it), and \<open>Rejected reason\<close> is a failure reported by a collaborator (the sign-in
  service or the drive client).
\<close>

datatype error =
    Error string
  | TypeError
  | Rejected string

text \<open>
  A JavaScript \<^verbatim>\<open>Map<string, JsonFile>\<close> iterates in insertion order, and \<^verbatim>\<open>set\<close> on a
  key that is present keeps its position: an association list with \<open>AList.update\<close>
  and \<open>AList.delete\<close>.  The key is the \<^verbatim>\<open>id\<close> of a document, which may be absent.
\<close>

type_synonym cache = "(string option \<times> JsonFile) list"

definition Map_get :: "cache \<Rightarrow> string option \<Rightarrow> JsonFile option" where
  "Map_get mapO k = map_of mapO k"

definition Map_set :: "string option \<Rightarrow> JsonFile \<Rightarrow> cache \<Rightarrow> cache" where
  "Map_set k v mapO = AList.update k v mapO"

definition Map_delete :: "string option \<Rightarrow> cache \<Rightarrow> cache" where
  "Map_delete k mapO = AList.delete k mapO"

definition Map_values :: "cache \<Rightarrow> JsonFile list" where
  "Map_values mapO = map snd mapO"

section \<open>Cache projector\<close>

text \<open>
  \<^verbatim>\<open>initializeFileCashe\<close>: the reducer \<^verbatim>\<open>accumulator\<close>.  The source updates the map in
  place and returns it; the model returns the updated map.  \<^verbatim>\<open>throw Error(...)\<close> is
  \<open>Inl\<close>.
\<close>

definition accumulator :: "cache \<Rightarrow> FileAlertEvent \<Rightarrow> error + cache" where
  "accumulator accMap event =
     (case event_file event of
        None \<Rightarrow> Inr accMap
      | Some f \<Rightarrow>
          if action event = ''error'' \<or> action event = ''unload'' then
            Inr (Map_delete (file_id f) accMap)
          else if action event = ''load'' \<or> action event = ''save''
                  \<or> action event = ''update'' then
            Inr (Map_set (file_id f) f accMap)
          else Inl (Error (''Unrecognised FileAlertEvent: '' @ action event)))"

text \<open>
  \<^verbatim>\<open>scan(accumulator, seed)\<close> followed by \<^verbatim>\<open>shareReplay(1)\<close>: the value held for
  subscribers is the fold of the events so far.  An exception in the reducer ends the
  stream with that error.
\<close>

fun scan :: "cache \<Rightarrow> FileAlertEvent list \<Rightarrow> error + cache" where
  "scan accMap [] = Inr accMap"
| "scan accMap (event # events) =
     (case accumulator accMap event of
        Inl e \<Rightarrow> Inl e
      | Inr accMap' \<Rightarrow> scan accMap' events)"

text \<open>The bootstrap value of \<^verbatim>\<open>startWith\<close>, and the snapshot after a history of events
  published on \<^verbatim>\<open>_fileEvent$\<close>, starting from \<^verbatim>\<open>new Map()\<close>.\<close>

definition sentinel :: FileAlertEvent where
  "sentinel = \<lparr>action = ''error'', event_file = None\<rparr>"

definition cachedFiles :: "FileAlertEvent list \<Rightarrow> error + cache" where
  "cachedFiles events = scan [] (sentinel # events)"

section \<open>Collaborators\<close>

text \<open>
  Parts of the program that the service uses and that are not part of its own file are
  parameters of the model: the members of \<^verbatim>\<open>JsonFile\<close> that the service calls, and the
  JavaScript built-ins \<^verbatim>\<open>JSON.parse\<close> and \<^verbatim>\<open>JSON.stringify\<close>.
  \<open>getDiffData\<close> gives \<open>None\<close> for a result that is falsy (the test is \<^verbatim>\<open>!diff\<close>);
  \<open>JSON_parse\<close> gives \<open>Inl\<close> of the message of the exception it throws.
\<close>

record env =
  MIME_TYPE :: string
  getDiffData :: "JsonFile \<Rightarrow> json option"
  contentAsString :: "JsonFile \<Rightarrow> bool \<Rightarrow> string"
  updateClone :: "JsonFile \<Rightarrow> JsonFile"
  JSON_parse :: "string \<Rightarrow> string + json"
  JSON_stringify :: "json \<Rightarrow> string"

text \<open>
  The drive client (\<^verbatim>\<open>gapi\<close>), as far as the service calls it.  Each call is a promise that
  is fulfilled with a response (\<open>Inr\<close>) or rejected (\<open>Inl\<close> of a reason).  The
  result of a metadata read is \<^verbatim>\<open>res.result\<close> with its \<^verbatim>\<open>capabilities\<close>, and
  \<^verbatim>\<open>res.toString()\<close>.
\<close>

record file_resource =
  res_id :: string
  res_name :: string
  res_modifiedTime :: string
  canDownload :: bool
  canRename :: bool
  canModifyContent :: bool
  res_toString :: string

record file_entry =
  entry_id :: string
  entry_name :: string

record list_params =
  list_spaces :: "string option"
  list_q :: string
  list_fields :: string

record request =
  req_path :: string
  req_method :: string
  req_params :: "(string \<times> string) list"
  req_headers :: "(string \<times> string) list"
  req_body :: string

record upload_result =
  result_id :: string
  result_modifiedTime :: string

record client =
  files_get :: "string \<Rightarrow> string + file_resource"
  files_get_media :: "string \<Rightarrow> string + string"
  files_list :: "list_params \<Rightarrow> string + file_entry list option"
  files_create :: "json \<Rightarrow> string + string"
  client_request :: "request \<Rightarrow> string + upload_result"

text \<open>
  What an operation does besides computing its result: the calls to the collaborators and
  the events it publishes with \<^verbatim>\<open>this._fileEvent$.next(event)\<close>, in order.
\<close>

datatype effect =
    GetClient
  | FilesGet string
  | FilesGetMedia string
  | FilesList list_params
  | FilesCreate json
  | Request request
  | Next FileAlertEvent

text \<open>
  An observable of the service that is subscribed and runs to its end: the effects, and
  the value it emits or the error it ends with.  \<^verbatim>\<open>oauthService.getClient()\<close> is taken to
  emit one client and complete, or to fail; \<^verbatim>\<open>zone.ngZoneEnter()\<close> passes values on
  unchanged.
\<close>

type_synonym 'a run = "effect list \<times> (error + 'a)"

definition emit :: "'a \<Rightarrow> 'a run" where
  "emit v = ([], Inr v)"

definition throw :: "error \<Rightarrow> 'a run" where
  "throw e = ([], Inl e)"

definition call :: "effect \<Rightarrow> string + 'a \<Rightarrow> 'a run" where
  "call eff response =
     ([eff], case response of Inl reason \<Rightarrow> Inl (Rejected reason) | Inr v \<Rightarrow> Inr v)"

definition publish :: "FileAlertEvent \<Rightarrow> 'a \<Rightarrow> 'a run" where
  "publish event v = ([Next event], Inr v)"

definition bind_run :: "'a run \<Rightarrow> ('a \<Rightarrow> 'b run) \<Rightarrow> 'b run" where
  "bind_run r k =
     (case snd r of
        Inl e \<Rightarrow> (fst r, Inl e)
      | Inr v \<Rightarrow> (fst r @ fst (k v), snd (k v)))"

fun published :: "effect list \<Rightarrow> FileAlertEvent list" where
  "published [] = []"
| "published (Next event # effs) = event # published effs"
| "published (_ # effs) = published effs"

fun requests :: "effect list \<Rightarrow> request list" where
  "requests [] = []"
| "requests (Request req # effs) = req # requests effs"
| "requests (_ # effs) = requests effs"

fun remote_calls :: "effect list \<Rightarrow> effect list" where
  "remote_calls [] = []"
| "remote_calls (Next event # effs) = remote_calls effs"
| "remote_calls (eff # effs) = eff # remote_calls effs"

definition CRLF :: string where
  "CRLF = [CHR 0x0D, CHR 0x0A]"

definition quoted :: "string \<Rightarrow> string" where
  "quoted s = [CHR 0x27] @ s @ [CHR 0x27]"

definition dquoted :: "string \<Rightarrow> string" where
  "dquoted s = [CHR 0x22] @ s @ [CHR 0x22]"

text \<open>String concatenation with a value that may be absent, and an optional string as a
  JSON value.\<close>

definition js_string :: "string option \<Rightarrow> string" where
  "js_string s = (case s of None \<Rightarrow> ''undefined'' | Some x \<Rightarrow> x)"

definition js_json :: "string option \<Rightarrow> json" where
  "js_json s = (case s of None \<Rightarrow> JNull | Some x \<Rightarrow> JString x)"

section \<open>Subscription layer\<close>

datatype 'a notification = OnNext 'a | OnError error

definition createErrorEvent :: "string \<Rightarrow> FileAlertEvent" where
  "createErrorEvent i =
     (let errFile = new_JsonFile (Some i) None None None;
          errFile = errFile\<lparr>content := Some (JObject
            [(''error'', JObject
               [(''type'', JString ''File Not Found''),
                (''message'', JString (''Document with id='' @ quoted i @ '' not found''))])])\<rparr>
      in \<lparr>action = ''error'', event_file = Some errFile\<rparr>)"

text \<open>\<^verbatim>\<open>currentState$\<close>: the latest snapshot (\<^verbatim>\<open>take(1)\<close> of the replayed stream), looked up
  at the id.\<close>

definition currentState :: "string \<Rightarrow> cache \<Rightarrow> FileAlertEvent" where
  "currentState docId mapO =
     (case Map_get mapO (Some docId) of
        Some f \<Rightarrow> \<lparr>action = ''load'', event_file = Some f\<rparr>
      | None \<Rightarrow> createErrorEvent docId)"

text \<open>\<^verbatim>\<open>futureState$\<close>: the events on \<^verbatim>\<open>_fileEvent$\<close> after the subscription, filtered by
  \<^verbatim>\<open>file.id === docId\<close>.  The predicate reads \<^verbatim>\<open>file.id\<close>; on an event without a file that
  read throws, and the stream ends with the error.\<close>

fun futureState :: "string \<Rightarrow> FileAlertEvent list \<Rightarrow> FileAlertEvent notification list" where
  "futureState docId [] = []"
| "futureState docId (event # events) =
     (case event_file event of
        None \<Rightarrow> [OnError TypeError]
      | Some f \<Rightarrow>
          if file_id f = Some docId then OnNext event # futureState docId events
          else futureState docId events)"

text \<open>\<^verbatim>\<open>merge(currentState$, futureState$)\<close>, for the snapshot at the time of the subscription
  and the events published after it.\<close>

definition listenDocumentById ::
  "string \<Rightarrow> cache \<Rightarrow> FileAlertEvent list \<Rightarrow> FileAlertEvent notification list" where
  "listenDocumentById docId mapO events =
     OnNext (currentState docId mapO) # futureState docId events"

text \<open>\<^verbatim>\<open>listenDocuments\<close>: the values of the snapshot, in the order of the map.\<close>

definition listenDocuments :: "cache \<Rightarrow> JsonFile list" where
  "listenDocuments mapO = Map_values mapO"

section \<open>Synchronization operations\<close>

definition getJsonFileFromDrive :: "env \<Rightarrow> string + client \<Rightarrow> string \<Rightarrow> JsonFile run" where
  "getJsonFileFromDrive env oauth docID =
     bind_run (call GetClient oauth) (\<lambda>client.
     bind_run (call (FilesGet docID) (files_get client docID)) (\<lambda>res.
       if \<not> canDownload res then
         throw (Error (''Cannot Download File (capabilities.canDownload) - '' @ res_toString res))
       else
         let file = new_JsonFile (Some (res_id res)) (Some (res_name res))
                      (Some (canRename res \<and> canModifyContent res))
                      (Some (res_modifiedTime res))
         in bind_run (call (FilesGetMedia docID) (files_get_media client docID)) (\<lambda>body.
              emit (case JSON_parse env body of
                      Inr v \<Rightarrow> file\<lparr>content := Some v\<rparr>
                    | Inl message \<Rightarrow> file\<lparr>content := Some (JObject
                        [(''error'', JObject
                           [(''type'', JString ''Parsing''),
                            (''message'', JString message)])])\<rparr>))))"

definition loadById :: "env \<Rightarrow> string + client \<Rightarrow> string \<Rightarrow> bool run" where
  "loadById env oauth docID =
     bind_run (getJsonFileFromDrive env oauth docID) (\<lambda>file.
       publish \<lparr>action = ''load'', event_file = Some file\<rparr> True)"

definition unloadFile :: "JsonFile option \<Rightarrow> effect list" where
  "unloadFile file =
     (case file of
        None \<Rightarrow> []
      | Some f \<Rightarrow>
          if file_id f \<noteq> None then [Next \<lparr>action = ''unload'', event_file = Some f\<rparr>]
          else [])"

text \<open>
  \<^verbatim>\<open>unloadById\<close>.  The test \<^verbatim>\<open>docID?.length < 1\<close> is false for an absent id
  (\<^verbatim>\<open>undefined < 1\<close>).  Otherwise the result is a pipeline on \<^verbatim>\<open>_cachedFiles$\<close> without
  \<^verbatim>\<open>take(1)\<close>: it runs on the snapshot that is replayed at the subscription and on each
  snapshot that follows while the subscription lasts.  The argument \<open>snapshots\<close> is
  that list of snapshots; the result has, for each, the effects and the value emitted.
\<close>

definition unloadById_snapshot :: "string option \<Rightarrow> cache \<Rightarrow> bool run" where
  "unloadById_snapshot docID mapO =
     (let file = Map_get mapO docID
      in (unloadFile file, Inr (file \<noteq> None)))"

definition unloadById :: "string option \<Rightarrow> cache list \<Rightarrow> bool run list" where
  "unloadById docID snapshots =
     (if (case docID of None \<Rightarrow> False | Some d \<Rightarrow> length d < 1) then [emit False]
      else map (unloadById_snapshot docID) snapshots)"



text \<open>The memo fields \<^verbatim>\<open>_folderId\<close> and \<^verbatim>\<open>_fileManagerAppFile\<close> of the service.\<close>

record service =
  folderId :: "string option"
  fileManagerAppFile :: "JsonFile option"

definition folderName :: string where
  "folderName = ''GloomhavenToolsDocs''"

definition fileNameAffix :: string where
  "fileNameAffix = ''-gloomtools''"

definition fileManagerAppFileName :: string where
  "fileManagerAppFileName = ''file-manager-data.json''"

definition folderType :: string where
  "folderType = ''application/vnd.google-apps.folder''"

definition getAppDataByName :: "env \<Rightarrow> string + client \<Rightarrow> string \<Rightarrow> JsonFile run" where
  "getAppDataByName env oauth name_arg =
     bind_run
       (bind_run (call GetClient oauth) (\<lambda>client.
          let params = \<lparr>list_spaces = Some ''appDataFolder'',
                        list_q = ''name='' @ quoted name_arg,
                        list_fields = ''files(id)''\<rparr>
          in bind_run (call (FilesList params) (files_list client params)) (\<lambda>appfiles.
               case appfiles of
                 Some (appfile # _) \<Rightarrow> emit (entry_id appfile)
               | _ \<Rightarrow>
                   let metadata = JObject
                         [(''mimeType'', JString ''application/json''),
                          (''name'', JString name_arg),
                          (''parents'', JArray [JString ''appDataFolder'']),
                          (''fields'', JString ''id'')]
                   in call (FilesCreate metadata) (files_create client metadata))))
       (\<lambda>docID. getJsonFileFromDrive env oauth docID)"

text \<open>The operations that read or write a memo field return the service state as well.\<close>

definition getFileManagerAppFile ::
  "env \<Rightarrow> service \<Rightarrow> string + client \<Rightarrow> JsonFile run \<times> service" where
  "getFileManagerAppFile env s oauth =
     (let resolve =
            (let r = getAppDataByName env oauth fileManagerAppFileName
             in (r, case snd r of
                      Inr file \<Rightarrow> s\<lparr>fileManagerAppFile := Some file\<rparr>
                    | Inl e \<Rightarrow> s))
      in case fileManagerAppFile s of
           None \<Rightarrow> resolve
         | Some f \<Rightarrow>
             (case file_id f of
                None \<Rightarrow> (throw TypeError, s)
              | Some i \<Rightarrow> if length i > 0 then (emit f, s) else resolve))"

definition getFolderId :: "service \<Rightarrow> string + client \<Rightarrow> string run \<times> service" where
  "getFolderId s oauth =
     (let resolve =
            bind_run (call GetClient oauth) (\<lambda>client.
              let params = \<lparr>list_spaces = None,
                            list_q = ''mimeType='' @ quoted folderType @ '' and name=''
                                     @ quoted folderName @ '' and trashed = false'',
                            list_fields = ''files(id)''\<rparr>
              in bind_run (call (FilesList params) (files_list client params)) (\<lambda>folders.
                   case folders of
                     Some (folder # _) \<Rightarrow> emit (entry_id folder)
                   | _ \<Rightarrow>
                       let metadata = JObject
                             [(''mimeType'', JString folderType),
                              (''name'', JString folderName),
                              (''fields'', JString ''id'')]
                       in call (FilesCreate metadata) (files_create client metadata)))
      in case folderId s of
           None \<Rightarrow> (resolve, s)
         | Some i \<Rightarrow> if length i > 0 then (emit i, s) else (resolve, s))"

definition getAllAccessibleFiles :: "string + client \<Rightarrow> file_entry list option run" where
  "getAllAccessibleFiles oauth =
     bind_run (call GetClient oauth) (\<lambda>client.
       let params = \<lparr>list_spaces = None,
                     list_q = ''mimeType='' @ quoted ''application/json''
                              @ '' and trashed = false'',
                     list_fields = ''files(id, name)''\<rparr>
       in call (FilesList params) (files_list client params))"

text \<open>
  \<^verbatim>\<open>merge(...)\<close> of observables that each emit one value or fail, with the round trips
  completing in the order of the list.  An error of one ends the merged stream, which
  unsubscribes from the others: what they would have done afterwards does not happen
  (requests that they have under way at that time are not listed).
\<close>

fun merge :: "'a run list \<Rightarrow> 'a list run" where
  "merge [] = emit []"
| "merge (r # rs) =
     (case snd r of
        Inl e \<Rightarrow> (fst r, Inl e)
      | Inr v \<Rightarrow>
          (fst r @ fst (merge rs),
           case snd (merge rs) of Inl e \<Rightarrow> Inl e | Inr vs \<Rightarrow> Inr (v # vs)))"

text \<open>\<^verbatim>\<open>reduce((acc, val) => acc && val)\<close> without a seed: the first value is the seed, and
  nothing is emitted when there was no value.\<close>

definition reduce_and :: "bool list \<Rightarrow> bool option" where
  "reduce_and vals =
     (case vals of [] \<Rightarrow> None | v # vs \<Rightarrow> Some (foldl (\<lambda>acc val. acc \<and> val) v vs))"

definition loadAllAccessibleFiles :: "env \<Rightarrow> string + client \<Rightarrow> bool option run" where
  "loadAllAccessibleFiles env oauth =
     bind_run (getAllAccessibleFiles oauth) (\<lambda>files.
       case files of
         None \<Rightarrow> throw TypeError
       | Some fs \<Rightarrow>
           bind_run
             (merge (map (\<lambda>file. loadById env oauth (entry_id file))
                         (filter (\<lambda>file. True) fs)))
             (\<lambda>vals. emit (reduce_and vals)))"

definition boundary :: string where
  "boundary = ''-------314159265358979323846''"

definition saveJsonFile :: "env \<Rightarrow> string + client \<Rightarrow> JsonFile \<Rightarrow> JsonFile run" where
  "saveJsonFile env oauth file =
     (case getDiffData env file of
        None \<Rightarrow> emit file
      | Some diff \<Rightarrow>
          let delimiter = CRLF @ ''--'' @ boundary @ CRLF;
              close_delim = CRLF @ ''--'' @ boundary @ ''--''
          in bind_run (call GetClient oauth) (\<lambda>client.
               let metadata = JObject
                     [(''name'', js_json (name file)),
                      (''mimeType'', JString (MIME_TYPE env))];
                   multipartRequestBody =
                     delimiter @
                     ''Content-Type: application/json'' @ CRLF @ CRLF @
                     JSON_stringify env metadata @
                     delimiter @
                     ''Content-Type: '' @
                     MIME_TYPE env @
                     CRLF @ CRLF @
                     contentAsString env file True @
                     close_delim;
                   req = \<lparr>req_path = ''/upload/drive/v3/files/'' @ js_string (file_id file),
                          req_method = ''PATCH'',
                          req_params = [(''uploadType'', ''multipart'')],
                          req_headers =
                            [(''Content-Type'',
                              ''multipart/related; boundary='' @ dquoted boundary)],
                          req_body = multipartRequestBody\<rparr>
               in bind_run (call (Request req) (client_request client req)) (\<lambda>_.
                    let file' = updateClone env file
                    in publish \<lparr>action = ''save'', event_file = Some file'\<rparr> file')))"

text \<open>
  \<^verbatim>\<open>createAndSaveNewJsonFile\<close>.  \<^verbatim>\<open>forkJoin\<close> subscribes to \<^verbatim>\<open>getFolderId()\<close> and to
  \<^verbatim>\<open>getClient()\<close> and goes on when both have completed.  The content argument is
  \<open>None\<close> when it is left out.
\<close>

definition createAndSaveNewJsonFile ::
  "env \<Rightarrow> service \<Rightarrow> string + client \<Rightarrow> string \<Rightarrow> json option \<Rightarrow> JsonFile run \<times> service" where
  "createAndSaveNewJsonFile env s oauth name_arg content_arg =
     (bind_run (fst (getFolderId s oauth)) (\<lambda>folder.
      bind_run (call GetClient oauth) (\<lambda>client.
        let newJsonFile = new_JsonFile None None None None;
            newJsonFile = newJsonFile\<lparr>name := Some (name_arg @ fileNameAffix @ ''.json'')\<rparr>;
            newJsonFile = (if content_arg \<noteq> Some JNull
                           then newJsonFile\<lparr>content := content_arg\<rparr> else newJsonFile);
            delimiter = CRLF @ ''--'' @ boundary @ CRLF;
            close_delim = CRLF @ ''--'' @ boundary @ ''--'';
            metadata = JObject
              [(''name'', js_json (name newJsonFile)),
               (''parents'', JArray [JString folder]),
               (''mimeType'', JString (MIME_TYPE env))];
            multipartRequestBody =
              delimiter @
              ''Content-Type: application/json'' @ CRLF @ CRLF @
              JSON_stringify env metadata @
              delimiter @
              ''Content-Type: '' @
              MIME_TYPE env @
              CRLF @ CRLF @
              contentAsString env newJsonFile True @
              close_delim;
            req = \<lparr>req_path = ''/upload/drive/v3/files'',
                   req_method = ''POST'',
                   req_params = [(''uploadType'', ''multipart'')],
                   req_headers =
                     [(''Content-Type'',
                       ''multipart/related; boundary='' @ dquoted boundary)],
                   req_body = multipartRequestBody\<rparr>
        in bind_run (call (Request req) (client_request client req)) (\<lambda>response.
             let file = newJsonFile\<lparr>file_id := Some (result_id response),
                                    modifiedTime := Some (result_modifiedTime response)\<rparr>
             in publish \<lparr>action = ''save'', event_file = Some file\<rparr> file))),
      snd (getFolderId s oauth))"

section \<open>Histories of published events\<close>


section \<open>Example values\<close>

text \<open>Concrete documents, collaborators and events, at which the theorems below are
  instantiated.\<close>

definition example_doc :: "string \<Rightarrow> JsonFile" where
  "example_doc i =
     \<lparr>file_id = Some i, name = Some (i @ ''.json''), canEdit = Some True,
      modifiedTime = Some ''2020-01-01'', content = Some (JObject [])\<rparr>"

definition example_env :: env where
  "example_env =
     \<lparr>MIME_TYPE = ''application/json'',
      getDiffData = (\<lambda>f. if content f = Some (JObject []) then None else content f),
      contentAsString = (\<lambda>f pretty. ''{}''),
      updateClone = (\<lambda>f. f),
      JSON_parse = (\<lambda>s. if s = ''{}'' then Inr (JObject []) else Inl ''Unexpected token''),
      JSON_stringify = (\<lambda>j. ''{}'')\<rparr>"

definition example_client :: client where
  "example_client =
     \<lparr>files_get = (\<lambda>i.
        if i = ''gone'' then Inl ''404''
        else Inr \<lparr>res_id = i, res_name = i @ ''.json'', res_modifiedTime = ''2020-01-01'',
                  canDownload = (i \<noteq> ''locked''), canRename = True, canModifyContent = True,
                  res_toString = ''[object Object]''\<rparr>),
      files_get_media = (\<lambda>i. if i = ''bad'' then Inr ''{'' else Inr ''{}''),
      files_list = (\<lambda>p.
        if list_spaces p = Some ''appDataFolder'' then Inr (Some [])
        else Inr (Some [\<lparr>entry_id = ''locked'', entry_name = ''locked.json''\<rparr>,
                        \<lparr>entry_id = ''a'', entry_name = ''a.json''\<rparr>])),
      files_create = (\<lambda>m. Inr ''created''),
      client_request = (\<lambda>r. Inr \<lparr>result_id = ''new'', result_modifiedTime = ''2020-01-02''\<rparr>)\<rparr>"



text \<open>The service as its constructor leaves it: no memo field is set.\<close>

definition new_service :: service where
  "new_service = \<lparr>folderId = None, fileManagerAppFile = None\<rparr>"


section \<open>Properties of the reducer\<close>

lemma Map_get_set: "Map_get (Map_set k v m) k' = (if k' = k then Some v else Map_get m k')"
  by (simp add: Map_get_def Map_set_def update_conv')

lemma Map_get_delete: "Map_get (Map_delete k m) k' = (if k' = k then None else Map_get m k')"
  by (simp add: Map_get_def Map_delete_def delete_conv')

lemma Map_delete_absent: "Map_get m k = None \<Longrightarrow> Map_delete k m = m"
  by (simp add: Map_get_def Map_delete_def map_of_eq_None_iff)

lemma scan_append:
  "scan m (xs @ ys) = (case scan m xs of Inl e \<Rightarrow> Inl e | Inr m' \<Rightarrow> scan m' ys)"
  by (induction xs arbitrary: m) (auto split: sum.splits)

text \<open>
  Claim C1.  One step of the reducer: an event without a file leaves the snapshot as it
  is; \<^verbatim>\<open>load\<close>, \<^verbatim>\<open>save\<close> and \<^verbatim>\<open>update\<close> store the file of the event under its id;
  \<^verbatim>\<open>unload\<close> and \<^verbatim>\<open>error\<close> remove the entry under that id, and change nothing when
  there is none; any other action is the error \<^verbatim>\<open>Unrecognised FileAlertEvent\<close>.  The
  entries under all other ids stay as they are.
\<close>

theorem accumulator_step:
  "(event_file event = None \<longrightarrow> accumulator accMap event = Inr accMap) \<and>
   (event_file event = Some f \<and> action event \<in> {''load'', ''save'', ''update''} \<longrightarrow>
      (\<exists>m'. accumulator accMap event = Inr m' \<and> Map_get m' (file_id f) = Some f \<and>
            (\<forall>k. k \<noteq> file_id f \<longrightarrow> Map_get m' k = Map_get accMap k))) \<and>
   (event_file event = Some f \<and> action event \<in> {''unload'', ''error''} \<longrightarrow>
      (\<exists>m'. accumulator accMap event = Inr m' \<and> Map_get m' (file_id f) = None \<and>
            (\<forall>k. k \<noteq> file_id f \<longrightarrow> Map_get m' k = Map_get accMap k) \<and>
            (Map_get accMap (file_id f) = None \<longrightarrow> m' = accMap))) \<and>
   (event_file event = Some f \<and>
      action event \<notin> {''load'', ''save'', ''update'', ''unload'', ''error''} \<longrightarrow>
      accumulator accMap event = Inl (Error (''Unrecognised FileAlertEvent: '' @ action event)))"
  by (auto simp: accumulator_def Map_get_set Map_get_delete Map_delete_absent)

theorem accumulator_step_witness:
  "accumulator [] sentinel = Inr [] \<and>
   (\<exists>m'. accumulator [] \<lparr>action = ''load'', event_file = Some (example_doc ''a'')\<rparr> = Inr m' \<and>
         Map_get m' (Some ''a'') = Some (example_doc ''a'')) \<and>
   (\<exists>m'. accumulator [(Some ''a'', example_doc ''a'')]
           \<lparr>action = ''unload'', event_file = Some (example_doc ''a'')\<rparr> = Inr m' \<and>
         Map_get m' (Some ''a'') = None) \<and>
   accumulator [] \<lparr>action = ''rename'', event_file = Some (example_doc ''a'')\<rparr>
     = Inl (Error ''Unrecognised FileAlertEvent: rename'')"
  using accumulator_step [where event = sentinel and accMap = "[]"]
    accumulator_step [where event = "\<lparr>action = ''load'', event_file = Some (example_doc ''a'')\<rparr>"
      and accMap = "[]" and f = "example_doc ''a''"]
    accumulator_step [where event = "\<lparr>action = ''unload'', event_file = Some (example_doc ''a'')\<rparr>"
      and accMap = "[(Some ''a'', example_doc ''a'')]" and f = "example_doc ''a''"]
    accumulator_step [where event = "\<lparr>action = ''rename'', event_file = Some (example_doc ''a'')\<rparr>"
      and accMap = "[]" and f = "example_doc ''a''"]
  by (auto simp: sentinel_def example_doc_def)

text \<open>
  Claim C4.  The snapshot is a function of the sequence of events alone, and the fold
  composes: the snapshot of a sequence is the fold of any suffix, started from the
  snapshot of the prefix before it.  This holds from the empty map with the bootstrap
  value in front, and from any map.  An error of the prefix is the result of the whole.
\<close>

theorem cachedFiles_append:
  "cachedFiles (xs @ ys) = (case cachedFiles xs of Inl e \<Rightarrow> Inl e | Inr m \<Rightarrow> scan m ys) \<and>
   scan m0 (xs @ ys) = (case scan m0 xs of Inl e \<Rightarrow> Inl e | Inr m \<Rightarrow> scan m ys)"
proof -
  have "scan [] ((sentinel # xs) @ ys)
          = (case scan [] (sentinel # xs) of Inl e \<Rightarrow> Inl e | Inr m \<Rightarrow> scan m ys)"
    by (rule scan_append)
  then show ?thesis
    by (simp add: cachedFiles_def scan_append)
qed

section \<open>Properties of the subscription layer\<close>

lemma futureState_filter:
  "\<forall>event \<in> set events. event_file event \<noteq> None \<Longrightarrow>
   futureState docId events =
     map OnNext (filter (\<lambda>event. map_option file_id (event_file event) = Some (Some docId)) events)"
  by (induction events) auto

text \<open>
  Claim C2.  A subscription to \<^verbatim>\<open>listenDocumentById(docId)\<close> first emits one event made
  from the latest snapshot: \<^verbatim>\<open>load\<close> with the cached file when the snapshot has the id,
  and otherwise an \<^verbatim>\<open>error\<close> event with a new file that has the id and the content
  \<^verbatim>\<open>{error: {type: 'File Not Found', message: ...}}\<close>.  After it come the events published
  later whose file has the id, whatever their action, in order.  The hypothesis is that
  the events on the subject have a file; the bootstrap value does not pass the subject.
\<close>

theorem listenDocumentById_emits:
  "\<forall>event \<in> set events. event_file event \<noteq> None \<Longrightarrow>
   listenDocumentById docId mapO events =
     OnNext (case Map_get mapO (Some docId) of
               Some f \<Rightarrow> \<lparr>action = ''load'', event_file = Some f\<rparr>
             | None \<Rightarrow>
                 \<lparr>action = ''error'',
                  event_file = Some
                    \<lparr>file_id = Some docId, name = None, canEdit = None, modifiedTime = None,
                     content = Some (JObject
                       [(''error'', JObject
                          [(''type'', JString ''File Not Found''),
                           (''message'', JString (''Document with id='' @ [CHR 0x27] @ docId
                                                   @ [CHR 0x27] @ '' not found''))])])\<rparr>\<rparr>)
     # map OnNext
         (filter (\<lambda>event. map_option file_id (event_file event) = Some (Some docId)) events)"
  by (simp add: listenDocumentById_def futureState_filter currentState_def createErrorEvent_def
      new_JsonFile_def quoted_def split: option.splits)

theorem listenDocumentById_emits_witness:
  "listenDocumentById ''a'' []
     [\<lparr>action = ''load'', event_file = Some (example_doc ''a'')\<rparr>,
      \<lparr>action = ''load'', event_file = Some (example_doc ''b'')\<rparr>,
      \<lparr>action = ''error'', event_file = Some (example_doc ''a'')\<rparr>]
   = [OnNext \<lparr>action = ''error'',
              event_file = Some
                \<lparr>file_id = Some ''a'', name = None, canEdit = None, modifiedTime = None,
                 content = Some (JObject
                   [(''error'', JObject
                      [(''type'', JString ''File Not Found''),
                       (''message'', JString (''Document with id='' @ [CHR 0x27] @ ''a''
                                               @ [CHR 0x27] @ '' not found''))])])\<rparr>\<rparr>,
      OnNext \<lparr>action = ''load'', event_file = Some (example_doc ''a'')\<rparr>,
      OnNext \<lparr>action = ''error'', event_file = Some (example_doc ''a'')\<rparr>]"
  using listenDocumentById_emits [where docId = "''a''" and mapO = "[]" and events =
     "[\<lparr>action = ''load'', event_file = Some (example_doc ''a'')\<rparr>,
       \<lparr>action = ''load'', event_file = Some (example_doc ''b'')\<rparr>,
       \<lparr>action = ''error'', event_file = Some (example_doc ''a'')\<rparr>]"]
  by (simp add: Map_get_def example_doc_def)

section \<open>Properties of unloading\<close>

lemma set_Map_set: "p \<in> set (Map_set k v m) \<Longrightarrow> p = (k, v) \<or> p \<in> set m"
  unfolding Map_set_def by (induction m) (auto split: if_splits)

lemma set_Map_delete: "p \<in> set (Map_delete k m) \<Longrightarrow> p \<in> set m"
  by (simp add: Map_delete_def AList.delete_eq)

text \<open>Each entry of a snapshot is a file under its own id.\<close>

lemma accumulator_keys_are_ids:
  assumes "\<forall>(k, f) \<in> set m. file_id f = k" and "accumulator m event = Inr m'"
  shows "\<forall>(k, f) \<in> set m'. file_id f = k"
  using assms
  by (auto simp: accumulator_def split: option.splits if_splits
      dest!: set_Map_set set_Map_delete)

lemma scan_keys_are_ids:
  "\<forall>(k, f) \<in> set m. file_id f = k \<Longrightarrow> scan m events = Inr m' \<Longrightarrow>
   \<forall>(k, f) \<in> set m'. file_id f = k"
proof (induction events arbitrary: m)
  case Nil
  then show ?case by simp
next
  case (Cons event events)
  from Cons.prems(2) obtain m1 where m1: "accumulator m event = Inr m1" and "scan m1 events = Inr m'"
    by (auto split: sum.splits)
  with Cons.IH [of m1] accumulator_keys_are_ids [OF Cons.prems(1) m1] show ?case
    by blast
qed

lemma cachedFiles_keys_are_ids:
  "cachedFiles h = Inr mapO \<Longrightarrow> Map_get mapO k = Some f \<Longrightarrow> file_id f = k"
proof -
  assume a: "cachedFiles h = Inr mapO" and b: "Map_get mapO k = Some f"
  have "\<forall>(k, f) \<in> set mapO. file_id f = k"
    using scan_keys_are_ids [of "[]" "sentinel # h" mapO] a by (simp add: cachedFiles_def)
  moreover have "(k, f) \<in> set mapO"
    using b by (simp add: Map_get_def map_of_SomeD)
  ultimately show ?thesis by blast
qed

text \<open>
  \<^verbatim>\<open>unloadById\<close> on one snapshot that is delivered to it: when the snapshot has no entry
  for the id, nothing is published and \<^verbatim>\<open>false\<close> is emitted; when the snapshot, folded
  from a history of events, has a file under the (non-empty) id, one \<^verbatim>\<open>unload\<close> event with
  that file is published and \<^verbatim>\<open>true\<close> is emitted.  The empty id emits \<^verbatim>\<open>false\<close> and
  publishes nothing, without a look at any snapshot; an absent id is looked up like any
  other and finds nothing when no document without an id is cached.
\<close>

lemma unloadById_result:
  "(Map_get mapO (Some d) = None \<longrightarrow> unloadById (Some d) [mapO] = [([], Inr False)]) \<and>
   (cachedFiles h = Inr mapO \<and> Map_get mapO (Some d) = Some f \<and> d \<noteq> [] \<longrightarrow>
      unloadById (Some d) [mapO]
        = [([Next \<lparr>action = ''unload'', event_file = Some f\<rparr>], Inr True)]) \<and>
   unloadById (Some []) snapshots = [([], Inr False)] \<and>
   (Map_get mapO None = None \<longrightarrow> unloadById None [mapO] = [([], Inr False)])"
proof -
  have "file_id f = Some d" if "cachedFiles h = Inr mapO" "Map_get mapO (Some d) = Some f"
    using that by (rule cachedFiles_keys_are_ids)
  then show ?thesis
    by (auto simp: unloadById_def unloadById_snapshot_def unloadFile_def emit_def)
qed

lemma unloadById_result_example:
  "unloadById (Some ''b'') [[(Some ''a'', example_doc ''a'')]] = [([], Inr False)] \<and>
   unloadById (Some ''a'') [[(Some ''a'', example_doc ''a'')]]
     = [([Next \<lparr>action = ''unload'', event_file = Some (example_doc ''a'')\<rparr>], Inr True)] \<and>
   unloadById None [[(Some ''a'', example_doc ''a'')]] = [([], Inr False)]"
proof -
  have c: "cachedFiles [\<lparr>action = ''load'', event_file = Some (example_doc ''a'')\<rparr>]
             = Inr [(Some ''a'', example_doc ''a'')]"
    by (simp add: cachedFiles_def sentinel_def accumulator_def Map_set_def example_doc_def)
  have g: "Map_get [(Some ''a'', example_doc ''a'')] (Some ''a'') = Some (example_doc ''a'')"
    "Map_get [(Some ''a'', example_doc ''a'')] (Some ''b'') = None"
    "Map_get [(Some ''a'', example_doc ''a'')] None = None"
    by (simp_all add: Map_get_def)
  show ?thesis
    using unloadById_result [where mapO = "[(Some ''a'', example_doc ''a'')]" and d = "''b''"]
      unloadById_result [where mapO = "[(Some ''a'', example_doc ''a'')]" and d = "''a''"
        and f = "example_doc ''a''"
        and h = "[\<lparr>action = ''load'', event_file = Some (example_doc ''a'')\<rparr>]"]
      c g
    by simp
qed

text \<open>The pipeline runs on every snapshot that is delivered while the subscription
  lasts.\<close>

lemma unloadById_each_snapshot:
  "d \<noteq> [] \<Longrightarrow> unloadById (Some d) snapshots = map (unloadById_snapshot (Some d)) snapshots"
  by (simp add: unloadById_def)

text \<open>
  Claim C3.  On the snapshot that is current at the call, \<^verbatim>\<open>unloadById\<close> does what the
  claim says (lemma \<open>unloadById_result\<close>).  But the observable that it returns is the
  pipeline on \<^verbatim>\<open>_cachedFiles$\<close> itself, with no \<^verbatim>\<open>take(1)\<close>, so the call is not over after
  that snapshot.  Below, the id \<^verbatim>\<open>a\<close> is not cached when \<^verbatim>\<open>unloadById('a')\<close> is subscribed:
  \<^verbatim>\<open>false\<close> is emitted and nothing is published.  Then a document with the id is loaded;
  the snapshot that follows is delivered to the same pipeline, which publishes an
  \<^verbatim>\<open>unload\<close> event for the document and emits \<^verbatim>\<open>true\<close>.
\<close>

theorem unloadById_later_snapshot:
  "cachedFiles [] = Inr [] \<and>
   cachedFiles [\<lparr>action = ''load'', event_file = Some (example_doc ''a'')\<rparr>]
     = Inr [(Some ''a'', example_doc ''a'')] \<and>
   unloadById (Some ''a'') [[], [(Some ''a'', example_doc ''a'')]]
     = [([], Inr False),
        ([Next \<lparr>action = ''unload'', event_file = Some (example_doc ''a'')\<rparr>], Inr True)]"
  by (simp add: cachedFiles_def sentinel_def accumulator_def Map_set_def Map_get_def
      unloadById_def unloadById_snapshot_def unloadFile_def example_doc_def)

section \<open>Properties of the synchronization operations\<close>

lemmas run_defs = bind_run_def call_def emit_def throw_def publish_def

lemma requests_append: "requests (xs @ ys) = requests xs @ requests ys"
  by (induction xs rule: requests.induct) simp_all


lemma getFolderId_requests: "requests (fst (fst (getFolderId s oauth))) = []"
  by (auto simp: getFolderId_def run_defs Let_def requests_append
      split: sum.splits option.splits list.splits)


text \<open>
  Claim C7.  \<^verbatim>\<open>getJsonFileFromDrive\<close> ends with an error thrown by the service exactly
  when the metadata read succeeds and reports \<^verbatim>\<open>canDownload\<close> false, and the error is
  \<^verbatim>\<open>Cannot Download File\<close> (a failed call of a collaborator is a rejection, not this
  error).  When the body does not parse, the operation succeeds with a document whose
  content is \<^verbatim>\<open>{error: {type: 'Parsing', message}}\<close>.  In every case it publishes no
  event.
\<close>

theorem getJsonFileFromDrive_result:
  "((\<exists>msg. snd (getJsonFileFromDrive env oauth docID) = Inl (Error msg)) \<longleftrightarrow>
      (\<exists>client res. oauth = Inr client \<and> files_get client docID = Inr res \<and> \<not> canDownload res)) \<and>
   (oauth = Inr client \<and> files_get client docID = Inr res \<and> \<not> canDownload res \<longrightarrow>
      snd (getJsonFileFromDrive env oauth docID)
        = Inl (Error (''Cannot Download File (capabilities.canDownload) - '' @ res_toString res))) \<and>
   (oauth = Inr client \<and> files_get client docID = Inr res \<and> canDownload res \<and>
    files_get_media client docID = Inr body \<and> JSON_parse env body = Inl message \<longrightarrow>
      snd (getJsonFileFromDrive env oauth docID)
        = Inr \<lparr>file_id = Some (res_id res), name = Some (res_name res),
               canEdit = Some (canRename res \<and> canModifyContent res),
               modifiedTime = Some (res_modifiedTime res),
               content = Some (JObject
                 [(''error'', JObject
                    [(''type'', JString ''Parsing''), (''message'', JString message)])])\<rparr>) \<and>
   published (fst (getJsonFileFromDrive env oauth docID)) = []"
  by (auto simp: getJsonFileFromDrive_def run_defs new_JsonFile_def Let_def split: sum.splits)

theorem getJsonFileFromDrive_result_witness:
  "snd (getJsonFileFromDrive example_env (Inr example_client) ''locked'')
     = Inl (Error ''Cannot Download File (capabilities.canDownload) - [object Object]'') \<and>
   snd (getJsonFileFromDrive example_env (Inr example_client) ''bad'')
     = Inr \<lparr>file_id = Some ''bad'', name = Some ''bad.json'', canEdit = Some True,
            modifiedTime = Some ''2020-01-01'',
            content = Some (JObject
              [(''error'', JObject
                 [(''type'', JString ''Parsing''),
                  (''message'', JString ''Unexpected token'')])])\<rparr>"
  using getJsonFileFromDrive_result [where env = example_env and oauth = "Inr example_client"
      and docID = "''locked''" and client = example_client
      and res = "\<lparr>res_id = ''locked'', res_name = ''locked.json'',
                  res_modifiedTime = ''2020-01-01'', canDownload = False, canRename = True,
                  canModifyContent = True, res_toString = ''[object Object]''\<rparr>"]
    getJsonFileFromDrive_result [where env = example_env and oauth = "Inr example_client"
      and docID = "''bad''" and client = example_client
      and res = "\<lparr>res_id = ''bad'', res_name = ''bad.json'',
                  res_modifiedTime = ''2020-01-01'', canDownload = True, canRename = True,
                  canModifyContent = True, res_toString = ''[object Object]''\<rparr>"
      and body = "''{''" and message = "''Unexpected token''"]
  by (simp add: example_client_def example_env_def)

text \<open>
  Claim C5.  \<^verbatim>\<open>saveJsonFile\<close> on a document without a diff returns the document and has
  no effect at all: no call, no event.  It has an effect only when there is a diff; then,
  with a client, it sends one \<^verbatim>\<open>PATCH\<close> request and, when the request succeeds, publishes
  one \<^verbatim>\<open>save\<close> event after it, with the clone of the document, which is also the result.
\<close>

theorem saveJsonFile_diff:
  "(getDiffData env doc = None \<longrightarrow> saveJsonFile env oauth doc = ([], Inr doc)) \<and>
   (fst (saveJsonFile env oauth doc) \<noteq> [] \<longrightarrow> getDiffData env doc \<noteq> None) \<and>
   (getDiffData env doc \<noteq> None \<and> oauth = Inr client \<longrightarrow>
      (\<exists>req. req_method req = ''PATCH'' \<and>
         (case client_request client req of
            Inr response \<Rightarrow>
              saveJsonFile env oauth doc
                = ([GetClient, Request req,
                    Next \<lparr>action = ''save'', event_file = Some (updateClone env doc)\<rparr>],
                   Inr (updateClone env doc))
          | Inl reason \<Rightarrow>
              saveJsonFile env oauth doc = ([GetClient, Request req], Inl (Rejected reason)))))"
proof (intro conjI impI)
  assume "getDiffData env doc = None"
  then show "saveJsonFile env oauth doc = ([], Inr doc)"
    by (simp add: saveJsonFile_def emit_def)
next
  assume "fst (saveJsonFile env oauth doc) \<noteq> []"
  then show "getDiffData env doc \<noteq> None"
    by (cases "getDiffData env doc") (simp_all add: saveJsonFile_def emit_def)
next
  assume a: "getDiffData env doc \<noteq> None \<and> oauth = Inr client"
  show "\<exists>req. req_method req = ''PATCH'' \<and>
         (case client_request client req of
            Inr response \<Rightarrow>
              saveJsonFile env oauth doc
                = ([GetClient, Request req,
                    Next \<lparr>action = ''save'', event_file = Some (updateClone env doc)\<rparr>],
                   Inr (updateClone env doc))
          | Inl reason \<Rightarrow>
              saveJsonFile env oauth doc = ([GetClient, Request req], Inl (Rejected reason)))"
    apply (rule exI [where x = "hd (requests (fst (saveJsonFile env oauth doc)))"])
    using a
    apply (auto simp: saveJsonFile_def run_defs Let_def split: sum.splits option.splits)
    done
qed

theorem saveJsonFile_diff_witness:
  "saveJsonFile example_env (Inr example_client) (example_doc ''a'')
     = ([], Inr (example_doc ''a'')) \<and>
   published (fst (saveJsonFile example_env (Inr example_client)
                     ((example_doc ''a'')\<lparr>content := Some (JString ''x'')\<rparr>)))
     = [\<lparr>action = ''save'',
         event_file = Some ((example_doc ''a'')\<lparr>content := Some (JString ''x'')\<rparr>)\<rparr>]"
  using saveJsonFile_diff [where env = example_env and oauth = "Inr example_client"
      and doc = "example_doc ''a''" and client = example_client]
    saveJsonFile_diff [where env = example_env and oauth = "Inr example_client"
      and doc = "(example_doc ''a'')\<lparr>content := Some (JString ''x'')\<rparr>"
      and client = example_client]
  by (auto simp: example_client_def example_env_def example_doc_def)

text \<open>
  Claim C9.  The only request of \<^verbatim>\<open>saveJsonFile\<close> is a \<^verbatim>\<open>PATCH\<close> and the only request of
  \<^verbatim>\<open>createAndSaveNewJsonFile\<close> is a \<^verbatim>\<open>POST\<close>, each with the header
  \<^verbatim>\<open>Content-Type: multipart/related; boundary="-------314159265358979323846"\<close> and
  the body: CR LF, two dashes, the boundary, CR LF, \<^verbatim>\<open>Content-Type: application/json\<close>, CR LF
  CR LF, the JSON text of the metadata (name and mimeType, and for a new file parents), CR
  LF, two dashes, the boundary, CR LF, \<^verbatim>\<open>Content-Type: \<close> and the MIME type of documents, CR
  LF CR LF, the content as text, CR LF, two dashes, the boundary, two dashes.  The MIME type
  in the metadata and in the second part is the same constant \<^verbatim>\<open>JsonFile.MIME_TYPE\<close>.
\<close>

theorem multipart_request:
  "requests (fst (saveJsonFile env oauth doc)) =
     (if getDiffData env doc \<noteq> None \<and> \<not> isl oauth then
        [\<lparr>req_path = ''/upload/drive/v3/files/'' @ js_string (file_id doc),
          req_method = ''PATCH'',
          req_params = [(''uploadType'', ''multipart'')],
          req_headers =
            [(''Content-Type'',
              ''multipart/related; boundary='' @ [CHR 0x22] @ ''-------314159265358979323846''
                @ [CHR 0x22])],
          req_body =
            [CHR 0x0D, CHR 0x0A] @ ''--'' @ ''-------314159265358979323846'' @ [CHR 0x0D, CHR 0x0A] @
            ''Content-Type: application/json'' @ [CHR 0x0D, CHR 0x0A, CHR 0x0D, CHR 0x0A] @
            JSON_stringify env
              (JObject [(''name'', js_json (name doc)), (''mimeType'', JString (MIME_TYPE env))]) @
            [CHR 0x0D, CHR 0x0A] @ ''--'' @ ''-------314159265358979323846'' @ [CHR 0x0D, CHR 0x0A] @
            ''Content-Type: '' @ MIME_TYPE env @ [CHR 0x0D, CHR 0x0A, CHR 0x0D, CHR 0x0A] @
            contentAsString env doc True @
            [CHR 0x0D, CHR 0x0A] @ ''--'' @ ''-------314159265358979323846'' @ ''--''\<rparr>]
      else []) \<and>
   requests (fst (fst (createAndSaveNewJsonFile env s oauth n c))) =
     (case snd (fst (getFolderId s oauth)) of
        Inl e \<Rightarrow> []
      | Inr folder \<Rightarrow>
          if isl oauth then []
          else
            [\<lparr>req_path = ''/upload/drive/v3/files'',
              req_method = ''POST'',
              req_params = [(''uploadType'', ''multipart'')],
              req_headers =
                [(''Content-Type'',
                  ''multipart/related; boundary='' @ [CHR 0x22] @ ''-------314159265358979323846''
                    @ [CHR 0x22])],
              req_body =
                [CHR 0x0D, CHR 0x0A] @ ''--'' @ ''-------314159265358979323846'' @ [CHR 0x0D, CHR 0x0A] @
                ''Content-Type: application/json'' @ [CHR 0x0D, CHR 0x0A, CHR 0x0D, CHR 0x0A] @
                JSON_stringify env
                  (JObject [(''name'', JString (n @ ''-gloomtools.json'')),
                            (''parents'', JArray [JString folder]),
                            (''mimeType'', JString (MIME_TYPE env))]) @
                [CHR 0x0D, CHR 0x0A] @ ''--'' @ ''-------314159265358979323846'' @ [CHR 0x0D, CHR 0x0A] @
                ''Content-Type: '' @ MIME_TYPE env @ [CHR 0x0D, CHR 0x0A, CHR 0x0D, CHR 0x0A] @
                contentAsString env
                  \<lparr>file_id = None, name = Some (n @ ''-gloomtools.json''), canEdit = None,
                   modifiedTime = None, content = (if c = Some JNull then None else c)\<rparr> True @
                [CHR 0x0D, CHR 0x0A] @ ''--'' @ ''-------314159265358979323846'' @ ''--''\<rparr>])"
proof
  show "requests (fst (saveJsonFile env oauth doc)) =
     (if getDiffData env doc \<noteq> None \<and> \<not> isl oauth then
        [\<lparr>req_path = ''/upload/drive/v3/files/'' @ js_string (file_id doc),
          req_method = ''PATCH'',
          req_params = [(''uploadType'', ''multipart'')],
          req_headers =
            [(''Content-Type'',
              ''multipart/related; boundary='' @ [CHR 0x22] @ ''-------314159265358979323846''
                @ [CHR 0x22])],
          req_body =
            [CHR 0x0D, CHR 0x0A] @ ''--'' @ ''-------314159265358979323846'' @ [CHR 0x0D, CHR 0x0A] @
            ''Content-Type: application/json'' @ [CHR 0x0D, CHR 0x0A, CHR 0x0D, CHR 0x0A] @
            JSON_stringify env
              (JObject [(''name'', js_json (name doc)), (''mimeType'', JString (MIME_TYPE env))]) @
            [CHR 0x0D, CHR 0x0A] @ ''--'' @ ''-------314159265358979323846'' @ [CHR 0x0D, CHR 0x0A] @
            ''Content-Type: '' @ MIME_TYPE env @ [CHR 0x0D, CHR 0x0A, CHR 0x0D, CHR 0x0A] @
            contentAsString env doc True @
            [CHR 0x0D, CHR 0x0A] @ ''--'' @ ''-------314159265358979323846'' @ ''--''\<rparr>]
      else [])"
    by (auto simp: saveJsonFile_def run_defs Let_def CRLF_def boundary_def dquoted_def
        split: sum.splits option.splits)
next
  show "requests (fst (fst (createAndSaveNewJsonFile env s oauth n c))) =
     (case snd (fst (getFolderId s oauth)) of
        Inl e \<Rightarrow> []
      | Inr folder \<Rightarrow>
          if isl oauth then []
          else
            [\<lparr>req_path = ''/upload/drive/v3/files'',
              req_method = ''POST'',
              req_params = [(''uploadType'', ''multipart'')],
              req_headers =
                [(''Content-Type'',
                  ''multipart/related; boundary='' @ [CHR 0x22] @ ''-------314159265358979323846''
                    @ [CHR 0x22])],
              req_body =
                [CHR 0x0D, CHR 0x0A] @ ''--'' @ ''-------314159265358979323846'' @ [CHR 0x0D, CHR 0x0A] @
                ''Content-Type: application/json'' @ [CHR 0x0D, CHR 0x0A, CHR 0x0D, CHR 0x0A] @
                JSON_stringify env
                  (JObject [(''name'', JString (n @ ''-gloomtools.json'')),
                            (''parents'', JArray [JString folder]),
                            (''mimeType'', JString (MIME_TYPE env))]) @
                [CHR 0x0D, CHR 0x0A] @ ''--'' @ ''-------314159265358979323846'' @ [CHR 0x0D, CHR 0x0A] @
                ''Content-Type: '' @ MIME_TYPE env @ [CHR 0x0D, CHR 0x0A, CHR 0x0D, CHR 0x0A] @
                contentAsString env
                  \<lparr>file_id = None, name = Some (n @ ''-gloomtools.json''), canEdit = None,
                   modifiedTime = None, content = (if c = Some JNull then None else c)\<rparr> True @
                [CHR 0x0D, CHR 0x0A] @ ''--'' @ ''-------314159265358979323846'' @ ''--''\<rparr>])"
    by (auto simp: createAndSaveNewJsonFile_def run_defs Let_def requests_append
        getFolderId_requests CRLF_def boundary_def dquoted_def new_JsonFile_def
        js_json_def fileNameAffix_def split: sum.splits)
qed

section \<open>Loading all accessible files\<close>

lemma loadById_value: "snd (loadById env oauth docID) = Inr v \<Longrightarrow> v"
  by (auto simp: loadById_def run_defs split: sum.splits)

lemma merge_values:
  "\<forall>r \<in> set rs. \<forall>v. snd r = Inr v \<longrightarrow> v \<Longrightarrow> snd (merge rs) = Inr vs \<Longrightarrow> \<forall>v \<in> set vs. v"
proof (induction rs arbitrary: vs)
  case Nil
  then show ?case by (simp add: emit_def)
next
  case (Cons r rs)
  from Cons.prems(2) obtain v ws where v: "snd r = Inr v" and ws: "snd (merge rs) = Inr ws"
    and vs: "vs = v # ws"
    by (auto split: sum.splits)
  from Cons.prems(1) v have "v" by (meson list.set_intros(1))
  moreover have "\<forall>w \<in> set ws. w"
  proof (rule Cons.IH [OF _ ws])
    show "\<forall>r \<in> set rs. \<forall>v. snd r = Inr v \<longrightarrow> v"
      using Cons.prems(1) by (meson list.set_intros(2))
  qed
  ultimately show ?case using vs by simp
qed

lemma foldl_and_True: "\<forall>v \<in> set vs. v \<Longrightarrow> foldl (\<lambda>acc val. acc \<and> val) a vs = a"
  by (induction vs arbitrary: a) auto

lemma reduce_and_True: "\<forall>v \<in> set vs. v \<Longrightarrow> reduce_and vs \<noteq> Some False"
  by (cases vs) (auto simp: reduce_and_def foldl_and_True)

lemma loadAllAccessibleFiles_never_false:
  "snd (loadAllAccessibleFiles env oauth) \<noteq> Inr (Some False)"
proof
  assume a: "snd (loadAllAccessibleFiles env oauth) = Inr (Some False)"
  then obtain fs :: "file_entry list" and vs where
    m: "snd (merge (map (\<lambda>file. loadById env oauth (entry_id file)) fs)) = Inr vs"
    and r: "reduce_and vs = Some False"
    by (auto simp: loadAllAccessibleFiles_def run_defs split: sum.splits option.splits)
  have "\<forall>v \<in> set vs. v"
    using m by (rule merge_values [rotated]) (auto dest: loadById_value)
  with r show False
    using reduce_and_True by blast
qed


text \<open>
  Claim C6.  \<^verbatim>\<open>loadAllAccessibleFiles\<close> never reports \<^verbatim>\<open>false\<close> (lemma
  \<open>loadAllAccessibleFiles_never_false\<close>): a load that fails ends with an error, the
  error ends the merged stream, and the aggregate ends with that error.  Below, the drive
  lists the documents \<^verbatim>\<open>locked\<close>, which may not be downloaded, and \<^verbatim>\<open>a\<close>, whose load on its
  own succeeds and publishes a \<^verbatim>\<open>load\<close> event.  The aggregate ends with the error
  \<^verbatim>\<open>Cannot Download File\<close>, and no \<^verbatim>\<open>load\<close> event is published for \<^verbatim>\<open>a\<close>.
\<close>

theorem loadAllAccessibleFiles_aborts:
  "snd (loadAllAccessibleFiles example_env (Inr example_client))
     = Inl (Error ''Cannot Download File (capabilities.canDownload) - [object Object]'') \<and>
   published (fst (loadAllAccessibleFiles example_env (Inr example_client))) = [] \<and>
   loadById example_env (Inr example_client) ''a''
     = ([GetClient, FilesGet ''a'', FilesGetMedia ''a'',
         Next \<lparr>action = ''load'', event_file = Some (example_doc ''a'')\<rparr>], Inr True)"
  by (simp add: loadAllAccessibleFiles_def getAllAccessibleFiles_def loadById_def
      getJsonFileFromDrive_def run_defs example_client_def example_env_def example_doc_def
      new_JsonFile_def Let_def)

section \<open>Discovery of the folder and of application data\<close>

text \<open>
  Claim C8, as stated, at the example client.  After \<^verbatim>\<open>getFolderId\<close> has resolved the
  folder, \<^verbatim>\<open>_folderId\<close> is still unset, and the next call lists the folders of the drive
  again.  \<^verbatim>\<open>getAppDataByName\<close> reads and writes no memo field: every call goes to the
  drive.
\<close>

theorem discovered_id_not_cached:
  "snd (fst (getFolderId new_service (Inr example_client))) = Inr ''locked'' \<and>
   folderId (snd (getFolderId new_service (Inr example_client))) = None \<and>
   remote_calls (fst (fst (getFolderId (snd (getFolderId new_service (Inr example_client)))
                                       (Inr example_client))))
     = [GetClient,
        FilesList \<lparr>list_spaces = None,
                   list_q = ''mimeType='' @ quoted ''application/vnd.google-apps.folder''
                            @ '' and name='' @ quoted ''GloomhavenToolsDocs''
                            @ '' and trashed = false'',
                   list_fields = ''files(id)''\<rparr>] \<and>
   remote_calls (fst (getAppDataByName example_env (Inr example_client) ''settings.json''))
     = [GetClient,
        FilesList \<lparr>list_spaces = Some ''appDataFolder'',
                   list_q = ''name='' @ quoted ''settings.json'',
                   list_fields = ''files(id)''\<rparr>,
        FilesCreate (JObject
          [(''mimeType'', JString ''application/json''),
           (''name'', JString ''settings.json''),
           (''parents'', JArray [JString ''appDataFolder'']),
           (''fields'', JString ''id'')]),
        GetClient, FilesGet ''created'', FilesGetMedia ''created'']"
  by (simp add: getFolderId_def getAppDataByName_def getJsonFileFromDrive_def run_defs
      new_service_def example_client_def example_env_def folderType_def folderName_def
      new_JsonFile_def Let_def)


text \<open>
  Claim C8, amended.  \<^verbatim>\<open>getFolderId\<close> (with no folder id in memory) and
  \<^verbatim>\<open>getAppDataByName\<close> list the files of the well-known name, take the id of the first one
  that is listed, and create a folder or a file only when the list is empty or absent;
  then the id is the one that the creation returns.  \<^verbatim>\<open>getAppDataByName\<close> goes on to fetch
  the document of that id.  \<^verbatim>\<open>getFileManagerAppFile\<close> keeps the document that it has
  resolved in \<^verbatim>\<open>_fileManagerAppFile\<close>: when the document has a non-empty id, every later
  call returns it without a call to the drive and leaves the state as it is.
\<close>

theorem discover_or_create:
  "(folderId s = None \<and> oauth = Inr client \<longrightarrow>
      getFolderId s oauth =
        (let params = \<lparr>list_spaces = None,
                        list_q = ''mimeType='' @ quoted ''application/vnd.google-apps.folder''
                                 @ '' and name='' @ quoted ''GloomhavenToolsDocs''
                                 @ '' and trashed = false'',
                        list_fields = ''files(id)''\<rparr>;
             metadata = JObject
               [(''mimeType'', JString ''application/vnd.google-apps.folder''),
                (''name'', JString ''GloomhavenToolsDocs''),
                (''fields'', JString ''id'')]
         in (case files_list client params of
               Inl reason \<Rightarrow> ([GetClient, FilesList params], Inl (Rejected reason))
             | Inr (Some (folder # rest)) \<Rightarrow> ([GetClient, FilesList params], Inr (entry_id folder))
             | Inr _ \<Rightarrow>
                 ([GetClient, FilesList params, FilesCreate metadata],
                  case files_create client metadata of
                    Inl reason \<Rightarrow> Inl (Rejected reason)
                  | Inr i \<Rightarrow> Inr i),
             s))) \<and>
   (oauth = Inr client \<longrightarrow>
      getAppDataByName env oauth n =
        (let params = \<lparr>list_spaces = Some ''appDataFolder'',
                        list_q = ''name='' @ quoted n,
                        list_fields = ''files(id)''\<rparr>;
             metadata = JObject
               [(''mimeType'', JString ''application/json''),
                (''name'', JString n),
                (''parents'', JArray [JString ''appDataFolder'']),
                (''fields'', JString ''id'')]
         in bind_run
              (case files_list client params of
                 Inl reason \<Rightarrow> ([GetClient, FilesList params], Inl (Rejected reason))
               | Inr (Some (appfile # rest)) \<Rightarrow>
                   ([GetClient, FilesList params], Inr (entry_id appfile))
               | Inr _ \<Rightarrow>
                   ([GetClient, FilesList params, FilesCreate metadata],
                    case files_create client metadata of
                      Inl reason \<Rightarrow> Inl (Rejected reason)
                    | Inr i \<Rightarrow> Inr i))
              (getJsonFileFromDrive env oauth))) \<and>
   (snd (fst (getFileManagerAppFile env s oauth)) = Inr doc \<and> file_id doc = Some i \<and> i \<noteq> [] \<longrightarrow>
      getFileManagerAppFile env (snd (getFileManagerAppFile env s oauth)) oauth'
        = (([], Inr doc), snd (getFileManagerAppFile env s oauth)))"
proof (intro conjI impI)
  assume "folderId s = None \<and> oauth = Inr client"
  then show "getFolderId s oauth =
        (let params = \<lparr>list_spaces = None,
                        list_q = ''mimeType='' @ quoted ''application/vnd.google-apps.folder''
                                 @ '' and name='' @ quoted ''GloomhavenToolsDocs''
                                 @ '' and trashed = false'',
                        list_fields = ''files(id)''\<rparr>;
             metadata = JObject
               [(''mimeType'', JString ''application/vnd.google-apps.folder''),
                (''name'', JString ''GloomhavenToolsDocs''),
                (''fields'', JString ''id'')]
         in (case files_list client params of
               Inl reason \<Rightarrow> ([GetClient, FilesList params], Inl (Rejected reason))
             | Inr (Some (folder # rest)) \<Rightarrow> ([GetClient, FilesList params], Inr (entry_id folder))
             | Inr _ \<Rightarrow>
                 ([GetClient, FilesList params, FilesCreate metadata],
                  case files_create client metadata of
                    Inl reason \<Rightarrow> Inl (Rejected reason)
                  | Inr i \<Rightarrow> Inr i),
             s))"
    by (simp add: getFolderId_def run_defs folderType_def folderName_def Let_def
        split: sum.splits option.splits list.splits)
next
  assume "oauth = Inr client"
  then show "getAppDataByName env oauth n =
        (let params = \<lparr>list_spaces = Some ''appDataFolder'',
                        list_q = ''name='' @ quoted n,
                        list_fields = ''files(id)''\<rparr>;
             metadata = JObject
               [(''mimeType'', JString ''application/json''),
                (''name'', JString n),
                (''parents'', JArray [JString ''appDataFolder'']),
                (''fields'', JString ''id'')]
         in bind_run
              (case files_list client params of
                 Inl reason \<Rightarrow> ([GetClient, FilesList params], Inl (Rejected reason))
               | Inr (Some (appfile # rest)) \<Rightarrow>
                   ([GetClient, FilesList params], Inr (entry_id appfile))
               | Inr _ \<Rightarrow>
                   ([GetClient, FilesList params, FilesCreate metadata],
                    case files_create client metadata of
                      Inl reason \<Rightarrow> Inl (Rejected reason)
                    | Inr i \<Rightarrow> Inr i))
              (getJsonFileFromDrive env oauth))"
    by (simp add: getAppDataByName_def call_def emit_def bind_run_def Let_def
        split: sum.splits option.splits list.splits)
next
  assume a: "snd (fst (getFileManagerAppFile env s oauth)) = Inr doc \<and> file_id doc = Some i \<and> i \<noteq> []"
  then have "fileManagerAppFile (snd (getFileManagerAppFile env s oauth)) = Some doc"
    by (auto simp: getFileManagerAppFile_def Let_def emit_def throw_def
        split: option.splits if_splits sum.splits)
  with a show "getFileManagerAppFile env (snd (getFileManagerAppFile env s oauth)) oauth'
        = (([], Inr doc), snd (getFileManagerAppFile env s oauth))"
    by (simp add: getFileManagerAppFile_def [of env "snd (getFileManagerAppFile env s oauth)"]
        Let_def emit_def)
qed

theorem discover_or_create_witness:
  "fst (getFolderId new_service (Inr example_client))
     = ([GetClient,
         FilesList \<lparr>list_spaces = None,
                    list_q = ''mimeType='' @ quoted ''application/vnd.google-apps.folder''
                             @ '' and name='' @ quoted ''GloomhavenToolsDocs''
                             @ '' and trashed = false'',
                    list_fields = ''files(id)''\<rparr>], Inr ''locked'') \<and>
   fst (fst (getFileManagerAppFile example_env
               (snd (getFileManagerAppFile example_env new_service (Inr example_client)))
               (Inr example_client))) = []"
proof -
  have a: "snd (fst (getFileManagerAppFile example_env new_service (Inr example_client)))
             = Inr (example_doc ''created'')"
    by (simp add: getFileManagerAppFile_def getAppDataByName_def getJsonFileFromDrive_def
        run_defs new_service_def example_client_def example_env_def example_doc_def
        new_JsonFile_def Let_def)
  show ?thesis
    using discover_or_create [where s = new_service and oauth = "Inr example_client"
        and client = example_client and env = example_env and doc = "example_doc ''created''"
        and i = "''created''" and oauth' = "Inr example_client"] a
    by (simp add: new_service_def example_client_def example_doc_def Let_def)
qed

section \<open>Events on the subject\<close>















end
